theory Spec2Isabelle
  imports Complex_Main "HOL-Library.Sublist" "HOL-Library.AList"
begin

section \<open>Python strings\<close>

text \<open>
  Strings are character lists. The four string operations the program relies on are
  \<^verbatim>\<open>str.split(sep)\<close> with a one-character separator, \<^verbatim>\<open>sep.join(xs)\<close>,
  the substring test \<^verbatim>\<open>a in b\<close> and \<^verbatim>\<open>str.replace(old, new)\<close>.
\<close>

definition backslash :: char where
  "backslash = CHR 0x5C"

definition squote :: char where
  "squote = CHR 0x27"

text \<open>\<^verbatim>\<open>s.split(sep)\<close>: one more part than there are separators; never empty.\<close>

fun split_on :: "char \<Rightarrow> string \<Rightarrow> string list" where
  "split_on sep [] = [[]]"
| "split_on sep (c # cs) =
     (if c = sep then [] # split_on sep cs
      else (case split_on sep cs of
              [] \<Rightarrow> [[c]]
            | p # ps \<Rightarrow> (c # p) # ps))"

text \<open>\<^verbatim>\<open>sep.join(xs)\<close>.\<close>

fun py_join :: "string \<Rightarrow> string list \<Rightarrow> string" where
  "py_join sep [] = []"
| "py_join sep [x] = x"
| "py_join sep (x # y # ys) = x @ sep @ py_join sep (y # ys)"

text \<open>\<^verbatim>\<open>t in s\<close> on strings: \<open>t\<close> occurs in \<open>s\<close> as a contiguous substring.\<close>

fun contains :: "string \<Rightarrow> string \<Rightarrow> bool" where
  "contains t [] = (t = [])"
| "contains t (c # cs) = (prefix t (c # cs) \<or> contains t cs)"

text \<open>
  \<^verbatim>\<open>s.replace(old, new)\<close>: the occurrences of \<open>old\<close> are found from the left and do
  not overlap; the replacement text is not scanned again. For an empty \<open>old\<close> Python
  inserts \<open>new\<close> before every character and at the end.
\<close>

function py_replace :: "string \<Rightarrow> string \<Rightarrow> string \<Rightarrow> string" where
  "py_replace old new [] = (if old = [] then new else [])"
| "py_replace old new (c # cs) =
     (if old = [] then new @ c # py_replace old new cs
      else if prefix old (c # cs)
        then new @ py_replace old new (drop (length old) (c # cs))
        else c # py_replace old new cs)"
  by pat_completeness auto
termination
  by (relation "measure (\<lambda>(old, new, s). length s)") auto

text \<open>Decimal rendering of integers, as \<^verbatim>\<open>str(n)\<close> gives it.\<close>

definition digit_char :: "nat \<Rightarrow> char" where
  "digit_char d = ''0123456789'' ! d"

fun show_nat :: "nat \<Rightarrow> string" where
  "show_nat n = (if n < 10 then [digit_char n] else show_nat (n div 10) @ [digit_char (n mod 10)])"

definition show_int :: "int \<Rightarrow> string" where
  "show_int i = (if i < 0 then CHR ''-'' # show_nat (nat (- i)) else show_nat (nat i))"


section \<open>Python values and errors\<close>

text \<open>
  What \<^verbatim>\<open>json.load\<close> returns: a tree of \<^verbatim>\<open>None\<close>, booleans, numbers, strings,
  lists and dictionaries. A dictionary keeps its insertion order, so it is an association
  list (keys of a loaded document are distinct); a float is identified with the rational
  number it stands for.
\<close>

datatype pyval =
    VNone
  | VBool bool
  | VInt int
  | VFloat rat
  | VStr string
  | VList "pyval list"
  | VDict "(string \<times> pyval) list"

text \<open>
  \<^verbatim>\<open>BitcException\<close> carries its message. The other constructors are the built-in
  exceptions that the dynamically typed operations of the source raise.
\<close>

datatype error =
    BitcException string
  | KeyError
  | TypeError
  | AttributeError
  | ValueError
  | ZeroDivisionError

text \<open>
  \<^verbatim>\<open>str(v)\<close> and \<^verbatim>\<open>f"{v}"\<close>. The text of a float, a list or a dictionary is
  Python's \<^verbatim>\<open>repr\<close>, which is outside the program: it is the parameter \<open>rp\<close>.
\<close>

definition py_str :: "(pyval \<Rightarrow> string) \<Rightarrow> pyval \<Rightarrow> string" where
  "py_str rp v =
     (case v of
        VStr s \<Rightarrow> s
      | VInt i \<Rightarrow> show_int i
      | VBool b \<Rightarrow> (if b then ''True'' else ''False'')
      | VNone \<Rightarrow> ''None''
      | _ \<Rightarrow> rp v)"

text \<open>\<^verbatim>\<open>v.keys()\<close>, \<^verbatim>\<open>v.items()\<close>: only a dictionary has them.\<close>

definition dict_of :: "pyval \<Rightarrow> error + (string \<times> pyval) list" where
  "dict_of v = (case v of VDict d \<Rightarrow> Inr d | _ \<Rightarrow> Inl AttributeError)"

text \<open>
  \<^verbatim>\<open>for x in v\<close>: a list gives its elements, a dictionary its keys, a string its
  characters; nothing else can be iterated.
\<close>

definition py_iter :: "pyval \<Rightarrow> error + pyval list" where
  "py_iter v =
     (case v of
        VList xs \<Rightarrow> Inr xs
      | VDict d \<Rightarrow> Inr (map (\<lambda>kv. VStr (fst kv)) d)
      | VStr s \<Rightarrow> Inr (map (\<lambda>c. VStr [c]) s)
      | _ \<Rightarrow> Inl TypeError)"

section \<open>Config\<close>

record config =
  filepath :: string
  data :: "(string \<times> pyval) list"

text \<open>\<^verbatim>\<open>Config.__getitem__\<close>\<close>

definition Config_getitem :: "config \<Rightarrow> string \<Rightarrow> error + pyval" where
  "Config_getitem cfg key =
     (case map_of (data cfg) key of None \<Rightarrow> Inl KeyError | Some v \<Rightarrow> Inr v)"

text \<open>
  \<^verbatim>\<open>Config.get\<close>: the loop over the segments of the key. The value found for a
  segment, or \<open>dflt\<close> when the segment is missing, becomes the current item.
\<close>

fun get_loop :: "pyval \<Rightarrow> string list \<Rightarrow> pyval \<Rightarrow> pyval" where
  "get_loop item [] dflt = item"
| "get_loop item (k # ks) dflt =
     (case item of
        VDict d \<Rightarrow> get_loop (case map_of d k of None \<Rightarrow> dflt | Some v \<Rightarrow> v) ks dflt
      | _ \<Rightarrow> dflt)"

definition Config_get :: "config \<Rightarrow> string \<Rightarrow> pyval \<Rightarrow> pyval" where
  "Config_get cfg key dflt = get_loop (VDict (data cfg)) (split_on CHR ''.'' key) dflt"

subsection \<open>Hydrating the user data\<close>

text \<open>The argument of \<^verbatim>\<open>hydrate_userdata\<close>: \<^verbatim>\<open>Union[None, List[str], Dict[str, str]]\<close>.\<close>

datatype userdata_source =
    NoData
  | DataList "string list"
  | DataDict "(string \<times> string) list"

definition bad_entry_msg :: "string \<Rightarrow> string" where
  "bad_entry_msg item = ''Badly formatted data entry '' @ [squote] @ item @ [squote]"

text \<open>\<^verbatim>\<open>self.data["_userdata"][k] = v\<close>\<close>

definition write_userdata :: "config \<Rightarrow> string \<Rightarrow> pyval \<Rightarrow> error + config" where
  "write_userdata cfg k v =
     (case map_of (data cfg) ''_userdata'' of
        None \<Rightarrow> Inl KeyError
      | Some (VDict u) \<Rightarrow>
          Inr (cfg\<lparr>data := AList.update ''_userdata'' (VDict (AList.update k v u)) (data cfg)\<rparr>)
      | Some _ \<Rightarrow> Inl TypeError)"

text \<open>
  The method mutates the configuration and may then raise: the model returns the
  configuration as the call leaves it, together with the exception, if any.
\<close>

fun hydrate_list :: "config \<Rightarrow> string list \<Rightarrow> config \<times> error option" where
  "hydrate_list cfg [] = (cfg, None)"
| "hydrate_list cfg (item # items) =
     (let parts = split_on CHR ''='' item in
      if length parts \<noteq> 2 then (cfg, Some (BitcException (bad_entry_msg item)))
      else (case write_userdata cfg (parts ! 0) (VStr (parts ! 1)) of
              Inl e \<Rightarrow> (cfg, Some e)
            | Inr cfg' \<Rightarrow> hydrate_list cfg' items))"

definition hydrate_userdata :: "config \<Rightarrow> userdata_source \<Rightarrow> config \<times> error option" where
  "hydrate_userdata cfg src =
     (case src of
        NoData \<Rightarrow> (cfg, None)
      | DataList items \<Rightarrow> hydrate_list cfg items
      | DataDict kvs \<Rightarrow>
          (case map_of (data cfg) ''_userdata'' of
             None \<Rightarrow> (cfg, Some KeyError)
           | Some (VDict u) \<Rightarrow>
               (cfg\<lparr>data := AList.update ''_userdata''
                   (VDict (fold (\<lambda>kv. AList.update (fst kv) (VStr (snd kv))) kvs u)) (data cfg)\<rparr>,
                None)
           | Some _ \<Rightarrow> (cfg, Some AttributeError)))"

text \<open>The user-data namespace of a configuration, when it has one.\<close>

definition userdata_of :: "config \<Rightarrow> (string \<times> pyval) list" where
  "userdata_of cfg = (case map_of (data cfg) ''_userdata'' of Some (VDict u) \<Rightarrow> u | _ \<Rightarrow> [])"

section \<open>User data from the probed metadata\<close>

text \<open>
  The fields of the probed video stream that \<^verbatim>\<open>build_userdata_from_metadata\<close> reads,
  with the types the probe writes them in; \<^verbatim>\<open>color_range\<close> may be missing.
\<close>

record video_stream =
  avg_frame_rate :: string
  r_frame_rate :: string
  width :: int
  height :: int
  codec_name :: string
  pix_fmt :: string
  color_range :: "string option"

text \<open>
  \<^verbatim>\<open>int(s)\<close> and \<^verbatim>\<open>float(s)\<close> on the texts a frame rate is written in: an optional
  sign and decimal digits, for \<^verbatim>\<open>float\<close> with an optional fraction after a point. Other
  texts (blanks, underscores, exponents) are refused here with \<^verbatim>\<open>ValueError\<close>.
\<close>

definition is_digit :: "char \<Rightarrow> bool" where
  "is_digit c = (c \<in> set ''0123456789'')"

definition digit_val :: "char \<Rightarrow> nat" where
  "digit_val c = length (takeWhile (\<lambda>d. d \<noteq> c) ''0123456789'')"

definition nat_of_digits :: "string \<Rightarrow> nat" where
  "nat_of_digits ds = foldl (\<lambda>a c. 10 * a + digit_val c) 0 ds"

definition split_sign :: "string \<Rightarrow> bool \<times> string" where
  "split_sign s =
     (case s of
        [] \<Rightarrow> (False, [])
      | c # cs \<Rightarrow> if c = CHR ''-'' then (True, cs) else if c = CHR ''+'' then (False, cs) else (False, s))"

definition py_int :: "string \<Rightarrow> error + int" where
  "py_int s =
     (let (neg, ds) = split_sign s in
      if ds \<noteq> [] \<and> list_all is_digit ds
      then Inr (if neg then - int (nat_of_digits ds) else int (nat_of_digits ds))
      else Inl ValueError)"

definition py_float :: "string \<Rightarrow> error + rat" where
  "py_float s =
     (let (neg, ds) = split_sign s in
      (case split_on CHR ''.'' ds of
         [i] \<Rightarrow>
           if i \<noteq> [] \<and> list_all is_digit i
           then Inr (if neg then - of_nat (nat_of_digits i) else of_nat (nat_of_digits i))
           else Inl ValueError
       | [i, f] \<Rightarrow>
           if i @ f \<noteq> [] \<and> list_all is_digit (i @ f)
           then Inr ((if neg then - of_nat (nat_of_digits (i @ f)) else of_nat (nat_of_digits (i @ f)))
                     / 10 ^ length f)
           else Inl ValueError
       | _ \<Rightarrow> Inl ValueError))"

text \<open>
  Floats are taken as the rationals they stand for, and the arithmetic on them as exact:
  the quotient of line 244 is the exact quotient, and \<^verbatim>\<open>round(x, 3)\<close> is the nearest
  multiple of 1/1000, a tie going to the even one. The binary rounding of the quotient is
  left out; it matters only for quotients that lie within it of such a tie.
\<close>

definition py_round3 :: "rat \<Rightarrow> rat" where
  "py_round3 x =
     (let s = x * 1000; f = \<lfloor>s\<rfloor>; r = s - of_int f in
      of_int (if r < 1 / 2 then f else if 1 / 2 < r then f + 1 else if even f then f else f + 1) / 1000)"

text \<open>Lines 241 to 247: the frame rate that is shown.\<close>

definition derive_fps :: "string \<Rightarrow> error + pyval" where
  "derive_fps fps =
     (if contains ''/'' fps then
        (case split_on CHR ''/'' fps of
           [fps_n, fps_d] \<Rightarrow>
             (case py_float fps_n of
                Inl e \<Rightarrow> Inl e
              | Inr n \<Rightarrow>
                  (case py_float fps_d of
                     Inl e \<Rightarrow> Inl e
                   | Inr d \<Rightarrow> if d = 0 then Inl ZeroDivisionError else Inr (VFloat (py_round3 (n / d)))))
         | _ \<Rightarrow> Inl ValueError)
      else (case py_int fps of Inl e \<Rightarrow> Inl e | Inr i \<Rightarrow> Inr (VInt i)))"

definition vfr_msg :: string where
  "vfr_msg = ''Variable framerate video streams are not supported''"

text \<open>
  \<open>now_iso\<close> is what \<^verbatim>\<open>datetime.datetime.utcnow().isoformat()\<close> returns at the call.
  The audio stream and the format are not used by the function.
\<close>

definition build_userdata_from_metadata ::
  "(pyval \<Rightarrow> string) \<Rightarrow> string \<Rightarrow> string \<Rightarrow> video_stream \<Rightarrow> error + (string \<times> string) list" where
  "build_userdata_from_metadata rp now_iso output_filename vs =
     (let fps_rate = avg_frame_rate vs in
      if fps_rate \<noteq> r_frame_rate vs then Inl (BitcException vfr_msg)
      else
        (case derive_fps fps_rate of
           Inl e \<Rightarrow> Inl e
         | Inr fps \<Rightarrow>
             (let info_1 = show_int (width vs) @ ''x'' @ show_int (height vs) @ '', ''
                           @ py_str rp fps @ '' FPS'';
                  color_info = (case color_range vs of None \<Rightarrow> [] | Some c \<Rightarrow> c);
                  color_info = (if color_info \<noteq> [] then color_info @ '', '' else color_info);
                  info_2 = codec_name vs @ '', '' @ color_info @ pix_fmt vs
              in Inr [(''frame_start'', ''0''),
                      (''timecode_start'', ''01:00:00:00''),
                      (''fps_rate'', fps_rate),
                      (''heading_title'', output_filename),
                      (''heading_sub'', hd (split_on CHR ''.'' now_iso) @ ''Z''),
                      (''info_1'', info_1),
                      (''info_2'', info_2)])))"

section \<open>The overlay flags\<close>

definition unknown_preset_msg :: "string \<Rightarrow> string" where
  "unknown_preset_msg preset_name =
     ''Definition of preset '' @ [squote] @ preset_name @ [squote]
     @ '' does not exist in the config file''"

definition missing_items_msg :: "string \<Rightarrow> string" where
  "missing_items_msg preset_name =
     ''Definition of preset '' @ [squote] @ preset_name @ [squote]
     @ '' does not have the `items` key''"

text \<open>Lines 364 to 367: the clauses of the font that an item names.\<close>

definition font_filters :: "(pyval \<Rightarrow> string) \<Rightarrow> pyval \<Rightarrow> string \<Rightarrow> error + string list" where
  "font_filters rp fonts v =
     (case dict_of fonts of
        Inl e \<Rightarrow> Inl e
      | Inr fd \<Rightarrow>
          (case map_of fd v of
             None \<Rightarrow> Inr []
           | Some font \<Rightarrow>
               (case dict_of font of
                  Inl e \<Rightarrow> Inl e
                | Inr ps \<Rightarrow> Inr (map (\<lambda>p. fst p @ ''='' @ py_str rp (snd p)) ps))))"

text \<open>
  Lines 370 to 373: one pass over the user data in its order, each pass replacing the
  token of one key in the text the passes before it have left.
\<close>

definition token :: "string \<Rightarrow> string" where
  "token uk = ''${'' @ uk @ ''}''"

fun substitute_userdata :: "(string \<times> pyval) list \<Rightarrow> string \<Rightarrow> error + string" where
  "substitute_userdata [] v = Inr v"
| "substitute_userdata ((uk, uv) # rest) v =
     (if contains (token uk) v then
        (case uv of
           VStr s \<Rightarrow> substitute_userdata rest (py_replace (token uk) s v)
         | _ \<Rightarrow> Inl TypeError)
      else substitute_userdata rest v)"

text \<open>Lines 376 and 377.\<close>

definition escape_vf :: "string \<Rightarrow> string" where
  "escape_vf v = py_replace '','' [backslash, CHR '',''] (py_replace '':'' [backslash, CHR '':''] v)"

text \<open>Lines 379 to 382: the clause of the parameter itself.\<close>

definition clause :: "string \<Rightarrow> string \<Rightarrow> string" where
  "clause k v =
     (if k = ''text'' \<or> k = ''timecode'' then k @ ''='' @ [squote] @ v @ [squote]
      else k @ ''='' @ v)"

text \<open>The body of the loop over the parameters of an item: what one parameter appends.\<close>

definition param_filters ::
  "(pyval \<Rightarrow> string) \<Rightarrow> pyval \<Rightarrow> pyval \<Rightarrow> string \<times> pyval \<Rightarrow> error + string list" where
  "param_filters rp fonts userdata kv =
     (let k = fst kv; v = py_str rp (snd kv) in
      (case (if k = ''font'' then font_filters rp fonts v else Inr []) of
         Inl e \<Rightarrow> Inl e
       | Inr ff \<Rightarrow>
           (case dict_of userdata of
              Inl e \<Rightarrow> Inl e
            | Inr ud \<Rightarrow>
                (case substitute_userdata ud v of
                   Inl e \<Rightarrow> Inl e
                 | Inr v' \<Rightarrow> Inr (ff @ [clause k (escape_vf v')])))))"

fun item_filters ::
  "(pyval \<Rightarrow> string) \<Rightarrow> pyval \<Rightarrow> pyval \<Rightarrow> (string \<times> pyval) list \<Rightarrow> error + string list" where
  "item_filters rp fonts userdata [] = Inr []"
| "item_filters rp fonts userdata (kv # kvs) =
     (case param_filters rp fonts userdata kv of
        Inl e \<Rightarrow> Inl e
      | Inr fs \<Rightarrow>
          (case item_filters rp fonts userdata kvs of
             Inl e \<Rightarrow> Inl e
           | Inr rest \<Rightarrow> Inr (fs @ rest)))"

text \<open>The loop over the items: one joined text per item.\<close>

fun drawtexts_of ::
  "(pyval \<Rightarrow> string) \<Rightarrow> pyval \<Rightarrow> pyval \<Rightarrow> pyval list \<Rightarrow> error + string list" where
  "drawtexts_of rp fonts userdata [] = Inr []"
| "drawtexts_of rp fonts userdata (item # items) =
     (case dict_of item of
        Inl e \<Rightarrow> Inl e
      | Inr kvs \<Rightarrow>
          (case item_filters rp fonts userdata kvs of
             Inl e \<Rightarrow> Inl e
           | Inr filters \<Rightarrow>
               (case drawtexts_of rp fonts userdata items of
                  Inl e \<Rightarrow> Inl e
                | Inr rest \<Rightarrow> Inr (py_join '':'' filters # rest))))"

text \<open>
  \<^verbatim>\<open>build_overlay_flags\<close>. Its arguments \<^verbatim>\<open>data\<close>, \<^verbatim>\<open>video_stream\<close> and
  \<^verbatim>\<open>format_metadata\<close> are never read.
\<close>

definition build_overlay_flags ::
  "(pyval \<Rightarrow> string) \<Rightarrow> string \<Rightarrow> config \<Rightarrow> error + string list" where
  "build_overlay_flags rp preset_name cfg =
     (case dict_of (Config_get cfg ''presets'' (VDict [])) of
        Inl e \<Rightarrow> Inl e
      | Inr known \<Rightarrow>
          if preset_name \<notin> set (map fst known)
          then Inl (BitcException (unknown_preset_msg preset_name))
          else
            (case Config_getitem cfg ''presets'' of
               Inl e \<Rightarrow> Inl e
             | Inr (VDict presets) \<Rightarrow>
                 (case map_of presets preset_name of
                    None \<Rightarrow> Inl KeyError
                  | Some preset \<Rightarrow>
                      (case dict_of preset of
                         Inl e \<Rightarrow> Inl e
                       | Inr pd \<Rightarrow>
                           (case map_of pd ''items'' of
                              None \<Rightarrow> Inl (BitcException (missing_items_msg preset_name))
                            | Some its \<Rightarrow>
                                (let userdata = Config_get cfg ''_userdata'' (VDict []);
                                     fonts = Config_get cfg ''fonts'' (VDict [])
                                 in (case py_iter its of
                                       Inl e \<Rightarrow> Inl e
                                     | Inr items \<Rightarrow>
                                         (case drawtexts_of rp fonts userdata items of
                                            Inl e \<Rightarrow> Inl e
                                          | Inr drawtexts \<Rightarrow>
                                              Inr [''-vf'',
                                                   py_join '','' (map (\<lambda>c. ''drawtext='' @ c) drawtexts)]))))))
             | Inr _ \<Rightarrow> Inl TypeError))"

section \<open>Notions used to state the properties\<close>

subsection \<open>Entries of the data list\<close>

text \<open>
  The text before and after the first \<open>=\<close> of an entry, and the namespace that results
  from writing a list of entries into \<open>u\<close> one after the other.
\<close>

definition entry_key :: "string \<Rightarrow> string" where
  "entry_key e = takeWhile (\<lambda>c. c \<noteq> CHR ''='') e"

definition entry_value :: "string \<Rightarrow> string" where
  "entry_value e = tl (dropWhile (\<lambda>c. c \<noteq> CHR ''='') e)"

definition apply_entries :: "(string \<times> pyval) list \<Rightarrow> string list \<Rightarrow> (string \<times> pyval) list" where
  "apply_entries u es = fold (\<lambda>e. AList.update (entry_key e) (VStr (entry_value e))) es u"

definition set_userdata :: "config \<Rightarrow> (string \<times> pyval) list \<Rightarrow> config" where
  "set_userdata cfg u = cfg\<lparr>data := AList.update ''_userdata'' (VDict u) (data cfg)\<rparr>"

text \<open>A configuration as \<^verbatim>\<open>Config.__init__\<close> leaves it: the user data is empty.\<close>

definition example_config :: config where
  "example_config = \<lparr>filepath = ''config.json'', data = [(''_userdata'', VDict [])]\<rparr>"

subsection \<open>Strict traversal of a dotted key\<close>

text \<open>The value at a path of segments, when every segment is present in a dictionary.\<close>

fun lookup_path :: "pyval \<Rightarrow> string list \<Rightarrow> pyval option" where
  "lookup_path item [] = Some item"
| "lookup_path item (k # ks) =
     (case item of
        VDict d \<Rightarrow> (case map_of d k of None \<Rightarrow> None | Some v \<Rightarrow> lookup_path v ks)
      | _ \<Rightarrow> None)"

subsection \<open>Values as templates\<close>

text \<open>
  A parameter value seen as a sequence of plain text and placeholder tokens, and the
  text in which each token of a known key stands replaced by the value of the key.
\<close>

datatype seg = Lit string | Tok string

fun render :: "seg list \<Rightarrow> string" where
  "render [] = []"
| "render (Lit s # segs) = s @ render segs"
| "render (Tok k # segs) = token k @ render segs"

definition subst_seg :: "(string \<times> string) list \<Rightarrow> seg \<Rightarrow> string" where
  "subst_seg ud sg =
     (case sg of
        Lit s \<Rightarrow> s
      | Tok k \<Rightarrow> (case map_of ud k of None \<Rightarrow> token k | Some val \<Rightarrow> val))"

definition seg_ok :: "seg \<Rightarrow> bool" where
  "seg_ok sg =
     (case sg of
        Lit s \<Rightarrow> CHR ''$'' \<notin> set s
      | Tok k \<Rightarrow> CHR ''$'' \<notin> set k \<and> CHR ''}'' \<notin> set k)"

definition entry_ok :: "string \<times> string \<Rightarrow> bool" where
  "entry_ok kv = (CHR ''}'' \<notin> set (fst kv) \<and> CHR ''$'' \<notin> set (snd kv))"

text \<open>What one pass of the substitution loop does to a template.\<close>

definition pass :: "string \<Rightarrow> string \<Rightarrow> seg \<Rightarrow> seg" where
  "pass uk uv sg = (case sg of Lit s \<Rightarrow> Lit s | Tok k \<Rightarrow> if k = uk then Lit uv else Tok k)"

subsection \<open>Well-typed configurations\<close>

text \<open>
  The shape the data model gives a configuration: presets are dictionaries whose
  \<^verbatim>\<open>items\<close>, when present, is a list of dictionaries; fonts are dictionaries; the user
  data holds strings.
\<close>

definition is_dict :: "pyval \<Rightarrow> bool" where
  "is_dict v = (case v of VDict d \<Rightarrow> True | _ \<Rightarrow> False)"

definition is_str :: "pyval \<Rightarrow> bool" where
  "is_str v = (case v of VStr s \<Rightarrow> True | _ \<Rightarrow> False)"

definition wf_preset :: "pyval \<Rightarrow> bool" where
  "wf_preset p =
     (case p of
        VDict pd \<Rightarrow>
          (case map_of pd ''items'' of
             None \<Rightarrow> True
           | Some (VList items) \<Rightarrow> list_all is_dict items
           | Some _ \<Rightarrow> False)
      | _ \<Rightarrow> False)"

definition wf_config :: "config \<Rightarrow> bool" where
  "wf_config cfg =
     ((case map_of (data cfg) ''presets'' of
         None \<Rightarrow> True
       | Some (VDict ps) \<Rightarrow> list_all (\<lambda>kv. wf_preset (snd kv)) ps
       | Some _ \<Rightarrow> False)
    \<and> (case map_of (data cfg) ''fonts'' of
         None \<Rightarrow> True
       | Some (VDict fs) \<Rightarrow> list_all (\<lambda>kv. is_dict (snd kv)) fs
       | Some _ \<Rightarrow> False)
    \<and> (case map_of (data cfg) ''_userdata'' of
         None \<Rightarrow> True
       | Some (VDict u) \<Rightarrow> list_all (\<lambda>kv. is_str (snd kv)) u
       | Some _ \<Rightarrow> False))"

definition presets_of :: "config \<Rightarrow> (string \<times> pyval) list" where
  "presets_of cfg = (case map_of (data cfg) ''presets'' of Some (VDict ps) \<Rightarrow> ps | _ \<Rightarrow> [])"

subsection \<open>Example configurations\<close>

definition main_fonts :: "(string \<times> pyval) list" where
  "main_fonts = [(''main'', VDict [(''fontcolor'', VStr ''0xFFFFFF'')])]"

definition scenario_config :: config where
  "scenario_config =
     \<lparr>filepath = ''config.json'',
      data = [(''fonts'', VDict main_fonts),
              (''presets'', VDict [(''default'',
                 VDict [(''items'', VList [VDict [(''text'', VStr ''Hello, World''),
                                                  (''font'', VStr ''main'')]])])]),
              (''_userdata'', VDict [])]\<rparr>"

definition scenario_config_font_first :: config where
  "scenario_config_font_first =
     \<lparr>filepath = ''config.json'',
      data = [(''fonts'', VDict main_fonts),
              (''presets'', VDict [(''default'',
                 VDict [(''items'', VList [VDict [(''font'', VStr ''main''),
                                                  (''text'', VStr ''Hello, World'')]])])]),
              (''_userdata'', VDict [])]\<rparr>"

definition two_presets_config :: config where
  "two_presets_config =
     \<lparr>filepath = ''config.json'',
      data = [(''fonts'', VDict main_fonts),
              (''presets'', VDict [(''default'',
                 VDict [(''items'', VList [VDict [(''text'', VStr ''Hello, World''),
                                                  (''font'', VStr ''main'')]])]),
                 (''broken'', VDict [(''comment'', VStr ''no items'')])]),
              (''_userdata'', VDict [])]\<rparr>"

definition cfr_stream :: video_stream where
  "cfr_stream =
     \<lparr>avg_frame_rate = ''25/1'', r_frame_rate = ''25/1'', width = 1920, height = 1080,
      codec_name = ''h264'', pix_fmt = ''yuv420p'', color_range = None\<rparr>"

definition vfr_stream :: video_stream where
  "vfr_stream =
     \<lparr>avg_frame_rate = ''30/1'', r_frame_rate = ''29.97'', width = 1920, height = 1080,
      codec_name = ''h264'', pix_fmt = ''yuv420p'', color_range = None\<rparr>"

section \<open>Properties\<close>

declare show_nat.simps [simp del]

lemmas eval_defs =
  build_overlay_flags_def Config_get_def Config_getitem_def dict_of_def py_iter_def
  param_filters_def font_filters_def py_str_def escape_vf_def clause_def token_def
  backslash_def squote_def Let_def

lemmas fps_defs =
  derive_fps_def py_float_def py_int_def split_sign_def is_digit_def nat_of_digits_def
  digit_val_def py_round3_def Let_def

subsection \<open>The scenario of the single item\<close>

text \<open>
  C1, as the code has it. The item \<open>{text: "Hello, World", font: "main"}\<close> is compiled
  in the order of its parameters, and the \<open>font\<close> parameter, after the clauses of the
  font, also goes through the general path of the loop: the chain is
  \<^verbatim>\<open>drawtext=text='Hello\, World':fontcolor=0xFFFFFF:font=main\<close>, after the token
  \<^verbatim>\<open>-vf\<close>.
\<close>

theorem scenario_chain:
  "build_overlay_flags rp ''default'' scenario_config =
     Inr [''-vf'', ''drawtext=text='' @ [squote] @ ''Hello'' @ [backslash] @ '', World'' @ [squote]
                   @ '':fontcolor=0xFFFFFF:font=main'']"
  by (simp add: scenario_config_def main_fonts_def eval_defs)

text \<open>
  The chain \<^verbatim>\<open>drawtext=fontcolor=0xFFFFFF:text='Hello\, World'\<close> is produced neither
  with the parameters in the order given nor with \<open>font\<close> first.
\<close>

theorem scenario_chain_differs:
  "build_overlay_flags (\<lambda>v. []) ''default'' scenario_config \<noteq>
     Inr [''-vf'', ''drawtext=fontcolor=0xFFFFFF:text='' @ [squote] @ ''Hello'' @ [backslash]
                   @ '', World'' @ [squote]]
   \<and> build_overlay_flags (\<lambda>v. []) ''default'' scenario_config_font_first \<noteq>
     Inr [''-vf'', ''drawtext=fontcolor=0xFFFFFF:text='' @ [squote] @ ''Hello'' @ [backslash]
                   @ '', World'' @ [squote]]"
  by (simp add: scenario_config_def scenario_config_font_first_def main_fonts_def eval_defs)

subsection \<open>The font parameter\<close>

text \<open>
  C2, as the code has it. For a parameter named \<open>font\<close> whose substitution succeeds:
  when its value names a font of the configuration, it contributes one clause
  \<open>name=value\<close> per parameter of the font, in the font's order and with the font's values
  as they are, followed by the parameter's own clause \<open>font=\<close> with the substituted and
  escaped value; when its value names no font, it contributes that last clause alone.
\<close>

theorem font_parameter_clauses:
  assumes "substitute_userdata ud (py_str rp v) = Inr v'"
  shows "(map_of fd (py_str rp v) = Some (VDict ps) \<longrightarrow>
            param_filters rp (VDict fd) (VDict ud) (''font'', v) =
              Inr (map (\<lambda>p. fst p @ ''='' @ py_str rp (snd p)) ps @ [''font='' @ escape_vf v']))
       \<and> (map_of fd (py_str rp v) = None \<longrightarrow>
            param_filters rp (VDict fd) (VDict ud) (''font'', v) = Inr [''font='' @ escape_vf v'])"
  using assms by (simp add: param_filters_def font_filters_def dict_of_def clause_def)

theorem font_parameter_clauses_witness:
  "substitute_userdata [] (py_str (\<lambda>v. []) (VStr ''main'')) = Inr ''main''
   \<and> param_filters (\<lambda>v. []) (VDict main_fonts) (VDict []) (''font'', VStr ''main'')
       = Inr [''fontcolor=0xFFFFFF'', ''font=main'']
   \<and> param_filters (\<lambda>v. []) (VDict main_fonts) (VDict []) (''font'', VStr ''nope'')
       = Inr [''font=nope'']"
proof -
  have s1: "substitute_userdata [] (py_str (\<lambda>v. []) (VStr ''main'')) = Inr ''main''"
    by (simp add: py_str_def)
  have s2: "substitute_userdata [] (py_str (\<lambda>v. []) (VStr ''nope'')) = Inr ''nope''"
    by (simp add: py_str_def)
  show ?thesis
    using s1
      font_parameter_clauses [OF s1, of main_fonts "[(''fontcolor'', VStr ''0xFFFFFF'')]"]
      font_parameter_clauses [OF s2, of main_fonts "[]"]
    by (simp add: py_str_def escape_vf_def main_fonts_def)
qed

text \<open>
  A known font does not contribute its own clauses only, and an unknown font does not
  contribute nothing.
\<close>

theorem font_parameter_own_clause:
  "param_filters (\<lambda>v. []) (VDict main_fonts) (VDict []) (''font'', VStr ''main'')
     \<noteq> Inr [''fontcolor=0xFFFFFF'']
   \<and> param_filters (\<lambda>v. []) (VDict main_fonts) (VDict []) (''font'', VStr ''nope'') \<noteq> Inr []"
  by (simp add: main_fonts_def eval_defs)

subsection \<open>The frame rate that is shown\<close>

lemma floor_ntsc: "\<lfloor>24000000 / 1001 :: rat\<rfloor> = 23976"
  by (rule floor_unique) simp_all

text \<open>
  C3, as the code has it. The rate \<open>24000/1001\<close> gives the float 23.976. The rate
  \<open>25/1\<close> contains a \<open>/\<close>, so it takes the same branch and gives the float 25.0; the
  integer 25 is what a rate written without \<open>/\<close>, such as \<open>25\<close>, gives.
\<close>

theorem fps_display_values:
  "derive_fps ''24000/1001'' = Inr (VFloat (23976 / 1000))
   \<and> derive_fps ''25/1'' = Inr (VFloat 25)
   \<and> derive_fps ''25'' = Inr (VInt 25)"
proof -
  have a: "derive_fps ''24000/1001'' = Inr (VFloat (23976 / 1000))"
    by (simp add: fps_defs floor_ntsc)
  have b: "derive_fps ''25/1'' = Inr (VFloat 25)"
    by (simp add: fps_defs)
  have c: "derive_fps ''25'' = Inr (VInt 25)"
    by (simp add: fps_defs)
  from a b c show ?thesis by simp
qed

text \<open>For \<open>25/1\<close> the value shown is not the integer 25.\<close>

theorem fps_25_1_not_integer: "derive_fps ''25/1'' \<noteq> Inr (VInt 25)"
  by (simp add: fps_defs)

subsection \<open>Dotted lookup\<close>

text \<open>
  C4 at the input where the code departs from it: in an empty document the segment
  \<open>a\<close> of the key \<open>a.b\<close> is missing, the default \<open>{"b": 1}\<close> becomes the current item,
  the loop goes on into it, and the call returns 1 instead of the default.
\<close>

theorem Config_get_descends_into_default:
  "Config_get \<lparr>filepath = ''config.json'', data = []\<rparr> ''a.b'' (VDict [(''b'', VInt 1)]) = VInt 1
   \<and> lookup_path (VDict []) (split_on CHR ''.'' ''a.b'') = None"
  by (simp add: Config_get_def)

text \<open>
  With a default that is no dictionary, or the empty one, the lookup is the strict
  traversal, and the default stands for every missing or untraversable segment.
\<close>

lemma get_loop_default:
  "(\<forall>d. dflt = VDict d \<longrightarrow> d = []) \<Longrightarrow> get_loop dflt ks dflt = dflt"
  by (induction ks) (auto split: pyval.splits)

lemma get_loop_lookup_path:
  "(\<forall>d. dflt = VDict d \<longrightarrow> d = []) \<Longrightarrow>
     get_loop item ks dflt = (case lookup_path item ks of None \<Rightarrow> dflt | Some v \<Rightarrow> v)"
  by (induction item ks rule: lookup_path.induct)
     (auto simp: get_loop_default split: pyval.splits option.splits)

lemma Config_get_plain_default:
  "(\<forall>d. dflt = VDict d \<longrightarrow> d = []) \<Longrightarrow>
     Config_get cfg key dflt =
       (case lookup_path (VDict (data cfg)) (split_on CHR ''.'' key) of
          None \<Rightarrow> dflt
        | Some v \<Rightarrow> v)"
  by (simp add: Config_get_def get_loop_lookup_path)

subsection \<open>Escaping\<close>

lemma py_replace_char:
  "py_replace [c] new s = concat (map (\<lambda>x. if x = c then new else [x]) s)"
  by (induction s) auto

lemma escape_vf_chars:
  "escape_vf v = concat (map (\<lambda>c. if c = CHR '':'' \<or> c = CHR '','' then [backslash, c] else [c]) v)"
  by (induction v) (auto simp: escape_vf_def py_replace_char backslash_def)

text \<open>
  C5. Escaping puts exactly one backslash in front of every \<open>:\<close> and every \<open>,\<close> of the
  value and leaves every other character as it is: the second replacement does not
  touch what the first has produced. The clause of a parameter other than \<open>font\<close> holds
  the substituted value escaped in this way.
\<close>

theorem escape_vf_exact:
  "escape_vf v = concat (map (\<lambda>c. if c = CHR '':'' \<or> c = CHR '','' then [backslash, c] else [c]) v)
   \<and> (substitute_userdata ud (py_str rp (snd kv)) = Inr v' \<and> fst kv \<noteq> ''font'' \<longrightarrow>
        param_filters rp fonts (VDict ud) kv =
          Inr [clause (fst kv)
                (concat (map (\<lambda>c. if c = CHR '':'' \<or> c = CHR '','' then [backslash, c] else [c]) v'))])"
  by (simp add: escape_vf_chars param_filters_def dict_of_def)

theorem escape_vf_exact_witness:
  "substitute_userdata [] (py_str (\<lambda>v. []) (snd (''x'', VStr ''a:b,c''))) = Inr ''a:b,c''
   \<and> fst (''x'', VStr ''a:b,c'') \<noteq> ''font''
   \<and> escape_vf ''a:b,c'' = ''a'' @ [backslash] @ '':b'' @ [backslash] @ '',c''
   \<and> param_filters (\<lambda>v. []) (VDict []) (VDict []) (''x'', VStr ''a:b,c'')
       = Inr [''x=a'' @ [backslash] @ '':b'' @ [backslash] @ '',c'']"
proof -
  have s: "substitute_userdata [] (py_str (\<lambda>v. []) (snd (''x'', VStr ''a:b,c''))) = Inr ''a:b,c''"
    by (simp add: py_str_def)
  show ?thesis
    using s escape_vf_exact [of "''a:b,c''" "[]" "\<lambda>v. []" "(''x'', VStr ''a:b,c'')" "''a:b,c''" "VDict []"]
    by (simp add: clause_def)
qed

subsection \<open>Placeholder substitution\<close>

lemma token_nonempty: "token k \<noteq> []"
  by (simp add: token_def)

lemma py_replace_no_contains:
  "t \<noteq> [] \<Longrightarrow> \<not> contains t v \<Longrightarrow> py_replace t new v = v"
  by (induction v) auto

lemma py_replace_skip:
  "x \<notin> set s \<Longrightarrow> py_replace (x # t) new (s @ r) = s @ py_replace (x # t) new r"
  by (induction s) auto

lemma py_replace_skip_token:
  "CHR ''$'' \<notin> set s \<Longrightarrow> py_replace (token uk) uv (s @ r) = s @ py_replace (token uk) uv r"
  using py_replace_skip [of "CHR ''$''" s "CHR ''{'' # uk @ ''}''" uv r] by (simp add: token_def)

lemma py_replace_here:
  "t \<noteq> [] \<Longrightarrow> py_replace t new (t @ r) = new @ py_replace t new r"
  by (cases t) auto

lemma pass_Lit: "pass uk uv (Lit s) = Lit s"
  by (simp add: pass_def)

lemma pass_Tok: "pass uk uv (Tok k) = (if k = uk then Lit uv else Tok k)"
  by (simp add: pass_def)

text \<open>Two keys without \<open>c\<close> that agree up to a closing \<open>c\<close> are the same key.\<close>

lemma prefix_upto_char:
  "c \<notin> set uk \<Longrightarrow> c \<notin> set k \<Longrightarrow> prefix (uk @ [c]) (k @ c # r) \<Longrightarrow> uk = k"
proof (induction uk arbitrary: k)
  case Nil
  then show ?case by (cases k) auto
next
  case (Cons x uk)
  then show ?case by (cases k) auto
qed

lemma py_replace_token_other:
  assumes "k \<noteq> uk" "CHR ''}'' \<notin> set uk" "CHR ''}'' \<notin> set k" "CHR ''$'' \<notin> set k"
  shows "py_replace (token uk) uv (token k @ r) = token k @ py_replace (token uk) uv r"
proof -
  have np: "\<not> prefix (uk @ ''}'') (k @ CHR ''}'' # r)"
    using prefix_upto_char [of "CHR ''}''" uk k r] assms by auto
  have "py_replace (token uk) uv (token k @ r)
          = CHR ''$'' # py_replace (token uk) uv ((CHR ''{'' # k @ ''}'') @ r)"
    using np by (simp add: token_def)
  also have "py_replace (token uk) uv ((CHR ''{'' # k @ ''}'') @ r)
          = (CHR ''{'' # k @ ''}'') @ py_replace (token uk) uv r"
    using assms(4) by (intro py_replace_skip_token) simp
  finally show ?thesis by (simp add: token_def)
qed

text \<open>One pass over a template replaces the tokens of its key and nothing else.\<close>

lemma py_replace_render:
  "list_all seg_ok segs \<Longrightarrow> CHR ''}'' \<notin> set uk \<Longrightarrow>
     py_replace (token uk) uv (render segs) = render (map (pass uk uv) segs)"
proof (induction segs)
  case Nil
  then show ?case by (simp add: token_nonempty)
next
  case (Cons sg segs)
  then have IH: "py_replace (token uk) uv (render segs) = render (map (pass uk uv) segs)"
    by simp
  show ?case
  proof (cases sg)
    case (Lit s)
    with Cons.prems have "CHR ''$'' \<notin> set s" by (simp add: seg_ok_def)
    then have "py_replace (token uk) uv (s @ render segs) = s @ py_replace (token uk) uv (render segs)"
      by (rule py_replace_skip_token)
    with Lit IH show ?thesis by (simp add: pass_Lit)
  next
    case (Tok k)
    show ?thesis
    proof (cases "k = uk")
      case True
      with Tok IH show ?thesis by (simp add: pass_Tok py_replace_here token_nonempty)
    next
      case False
      from Tok Cons.prems have "CHR ''}'' \<notin> set k" "CHR ''$'' \<notin> set k"
        by (simp_all add: seg_ok_def)
      with False Cons.prems(2) Tok IH show ?thesis
        by (simp add: pass_Tok py_replace_token_other)
    qed
  qed
qed

lemma pass_ok:
  "CHR ''$'' \<notin> set uv \<Longrightarrow> list_all seg_ok segs \<Longrightarrow> list_all seg_ok (map (pass uk uv) segs)"
  by (induction segs) (auto simp: pass_Lit pass_Tok seg_ok_def split: seg.splits)

lemma subst_seg_pass: "subst_seg rest (pass uk uv sg) = subst_seg ((uk, uv) # rest) sg"
  by (cases sg) (auto simp: subst_seg_def pass_Lit pass_Tok)

lemma subst_seg_empty: "concat (map (subst_seg []) segs) = render segs"
  by (induction segs rule: render.induct) (auto simp: subst_seg_def)

text \<open>
  C6, as the code has it. Take a value made of text without \<open>$\<close> and of tokens
  \<open>${key}\<close> whose keys contain neither \<open>$\<close> nor \<open>}\<close>, and user data whose keys
  contain no \<open>}\<close> and whose values contain no \<open>$\<close>. Then substitution succeeds, every
  token of a key of the user data stands replaced by the value of that key, and every
  token of a key that is not there, like the text between the tokens, is left as it is.
\<close>

theorem substitute_userdata_template:
  assumes "list_all seg_ok segs" and "list_all entry_ok ud"
  shows "substitute_userdata (map (\<lambda>kv. (fst kv, VStr (snd kv))) ud) (render segs)
           = Inr (concat (map (subst_seg ud) segs))"
  using assms
proof (induction ud arbitrary: segs)
  case Nil
  then show ?case by (simp add: subst_seg_empty)
next
  case (Cons kv ud)
  obtain uk uv where kv: "kv = (uk, uv)" by (cases kv)
  from Cons.prems have "entry_ok kv" and oks: "list_all entry_ok ud"
    by simp_all
  with kv have ok: "CHR ''}'' \<notin> set uk" "CHR ''$'' \<notin> set uv"
    by (simp_all add: entry_ok_def)
  have "substitute_userdata (map (\<lambda>kv. (fst kv, VStr (snd kv))) (kv # ud)) (render segs)
        = substitute_userdata (map (\<lambda>kv. (fst kv, VStr (snd kv))) ud)
            (py_replace (token uk) uv (render segs))"
    by (simp add: kv py_replace_no_contains token_nonempty)
  also have "\<dots> = substitute_userdata (map (\<lambda>kv. (fst kv, VStr (snd kv))) ud)
            (render (map (pass uk uv) segs))"
    using Cons.prems(1) ok(1) by (simp add: py_replace_render)
  also have "\<dots> = Inr (concat (map (subst_seg ud) (map (pass uk uv) segs)))"
    using ok(2) oks Cons.prems(1) by (intro Cons.IH pass_ok)
  also have "\<dots> = Inr (concat (map (subst_seg (kv # ud)) segs))"
    by (simp add: kv subst_seg_pass comp_def)
  finally show ?case .
qed

theorem substitute_userdata_template_witness:
  "list_all seg_ok [Lit ''a '', Tok ''title'', Lit '' - '', Tok ''nope'']
   \<and> list_all entry_ok [(''title'', ''My Clip'')]
   \<and> substitute_userdata [(''title'', VStr ''My Clip'')] ''a ${title} - ${nope}''
       = Inr ''a My Clip - ${nope}''"
proof -
  have h1: "list_all seg_ok [Lit ''a '', Tok ''title'', Lit '' - '', Tok ''nope'']"
    by (simp add: seg_ok_def)
  have h2: "list_all entry_ok [(''title'', ''My Clip'')]"
    by (simp add: entry_ok_def)
  show ?thesis
    using substitute_userdata_template [OF h1 h2] h1 h2 by (simp add: subst_seg_def token_def)
qed

text \<open>
  The passes work on the text the passes before them have left. A token brought in by
  the value of an earlier key is replaced in its turn, so the token of \<open>a\<close> does not
  end as the value of \<open>a\<close>; a token brought in by the value of a later key stays in the
  output although its key is known; and the token of an unknown key is changed when it
  holds the token of a known one.
\<close>

theorem substitute_userdata_rescans:
  "substitute_userdata [(''a'', VStr ''${b}''), (''b'', VStr ''X'')] ''${a}'' = Inr ''X''
   \<and> substitute_userdata [(''b'', VStr ''X''), (''a'', VStr ''${b}'')] ''${a}'' = Inr ''${b}''
   \<and> substitute_userdata [(''b'', VStr ''X'')] ''${a${b}}'' = Inr ''${aX}''"
  by (simp add: token_def)

subsection \<open>Failures of the overlay compilation\<close>

lemma substitute_ok:
  "list_all (\<lambda>kv. is_str (snd kv)) ud \<Longrightarrow> \<exists>v'. substitute_userdata ud v = Inr v'"
  by (induction ud v rule: substitute_userdata.induct) (auto simp: is_str_def split: pyval.splits)

lemma font_filters_ok:
  assumes "list_all (\<lambda>kv. is_dict (snd kv)) fd"
  shows "\<exists>ff. font_filters rp (VDict fd) v = Inr ff"
proof (cases "map_of fd v")
  case None
  then show ?thesis by (simp add: font_filters_def dict_of_def)
next
  case (Some font)
  then have "(v, font) \<in> set fd" by (rule map_of_SomeD)
  with assms have "is_dict font" by (auto simp: list_all_iff)
  with Some show ?thesis
    by (auto simp: font_filters_def dict_of_def is_dict_def split: pyval.splits)
qed

lemma param_filters_ok:
  assumes "list_all (\<lambda>kv. is_dict (snd kv)) fd" "list_all (\<lambda>kv. is_str (snd kv)) ud"
  shows "\<exists>fs. param_filters rp (VDict fd) (VDict ud) kv = Inr fs"
proof -
  obtain ff where ff: "font_filters rp (VDict fd) (py_str rp (snd kv)) = Inr ff"
    using font_filters_ok [OF assms(1)] by blast
  obtain v' where v': "substitute_userdata ud (py_str rp (snd kv)) = Inr v'"
    using substitute_ok [OF assms(2)] by blast
  show ?thesis
    by (simp add: param_filters_def Let_def ff v' dict_of_def)
qed

lemma item_filters_ok:
  assumes "list_all (\<lambda>kv. is_dict (snd kv)) fd" "list_all (\<lambda>kv. is_str (snd kv)) ud"
  shows "\<exists>fs. item_filters rp (VDict fd) (VDict ud) kvs = Inr fs"
proof (induction kvs)
  case Nil
  then show ?case by simp
next
  case (Cons kv kvs)
  obtain a where "param_filters rp (VDict fd) (VDict ud) kv = Inr a"
    using param_filters_ok [OF assms] by blast
  with Cons show ?case by auto
qed

lemma drawtexts_of_ok:
  assumes "list_all (\<lambda>kv. is_dict (snd kv)) fd" "list_all (\<lambda>kv. is_str (snd kv)) ud"
  shows "list_all is_dict items \<Longrightarrow> \<exists>ds. drawtexts_of rp (VDict fd) (VDict ud) items = Inr ds"
proof (induction items)
  case Nil
  then show ?case by simp
next
  case (Cons item items)
  then obtain kvs where item: "item = VDict kvs"
    by (auto simp: is_dict_def split: pyval.splits)
  obtain fs where "item_filters rp (VDict fd) (VDict ud) kvs = Inr fs"
    using item_filters_ok [OF assms] by blast
  with Cons item show ?case by (auto simp: dict_of_def)
qed

lemma wf_fonts:
  "wf_config cfg \<Longrightarrow>
     \<exists>fd. Config_get cfg ''fonts'' (VDict []) = VDict fd \<and> list_all (\<lambda>kv. is_dict (snd kv)) fd"
  by (auto simp: wf_config_def Config_get_def split: option.splits pyval.splits)

lemma wf_userdata:
  "wf_config cfg \<Longrightarrow>
     \<exists>ud. Config_get cfg ''_userdata'' (VDict []) = VDict ud \<and> list_all (\<lambda>kv. is_str (snd kv)) ud"
  by (auto simp: wf_config_def Config_get_def split: option.splits pyval.splits)

lemma wf_presets:
  "wf_config cfg \<Longrightarrow> Config_get cfg ''presets'' (VDict []) = VDict (presets_of cfg)"
  by (auto simp: wf_config_def Config_get_def presets_of_def split: option.splits pyval.splits)

lemma wf_getitem:
  "map_of (presets_of cfg) name = Some p \<Longrightarrow>
     Config_getitem cfg ''presets'' = Inr (VDict (presets_of cfg))"
  by (auto simp: Config_getitem_def presets_of_def split: option.splits pyval.splits)

lemma wf_preset_of:
  "wf_config cfg \<Longrightarrow> map_of (presets_of cfg) name = Some p \<Longrightarrow> wf_preset p"
  by (auto simp: wf_config_def presets_of_def list_all_iff split: option.splits pyval.splits
           dest!: map_of_SomeD)

text \<open>
  C7. On a well-typed configuration the compilation fails in exactly two cases: with
  the message that the preset does not exist when the name is not a key of the presets,
  and with the message that the \<open>items\<close> key is missing when the preset is there without
  it. For a preset that is there and has its items, the result is the token \<open>-vf\<close> and
  a filter chain. Every preset is a dictionary, so the three cases are all there are.
\<close>

theorem build_overlay_flags_failures:
  assumes "wf_config cfg"
  shows "(map_of (presets_of cfg) preset_name = None \<longrightarrow>
            build_overlay_flags rp preset_name cfg
              = Inl (BitcException (unknown_preset_msg preset_name)))
       \<and> (\<forall>pd. map_of (presets_of cfg) preset_name = Some (VDict pd) \<and> map_of pd ''items'' = None \<longrightarrow>
            build_overlay_flags rp preset_name cfg
              = Inl (BitcException (missing_items_msg preset_name)))
       \<and> (\<forall>pd its. map_of (presets_of cfg) preset_name = Some (VDict pd) \<and> map_of pd ''items'' = Some its \<longrightarrow>
            (\<exists>chain. build_overlay_flags rp preset_name cfg = Inr [''-vf'', chain]))
       \<and> (\<forall>p. map_of (presets_of cfg) preset_name = Some p \<longrightarrow> is_dict p)"
proof (intro conjI allI impI)
  assume "map_of (presets_of cfg) preset_name = None"
  then have "preset_name \<notin> set (map fst (presets_of cfg))"
    by (simp add: map_of_eq_None_iff)
  then show "build_overlay_flags rp preset_name cfg
              = Inl (BitcException (unknown_preset_msg preset_name))"
    using wf_presets [OF assms] by (simp add: build_overlay_flags_def dict_of_def)
next
  fix pd
  assume a: "map_of (presets_of cfg) preset_name = Some (VDict pd) \<and> map_of pd ''items'' = None"
  then have "preset_name \<in> set (map fst (presets_of cfg))"
    by (metis map_of_eq_None_iff option.distinct(1) set_map)
  then show "build_overlay_flags rp preset_name cfg
              = Inl (BitcException (missing_items_msg preset_name))"
    using a wf_presets [OF assms] wf_getitem [of cfg preset_name "VDict pd"]
    by (simp add: build_overlay_flags_def dict_of_def)
next
  fix pd its
  assume a: "map_of (presets_of cfg) preset_name = Some (VDict pd) \<and> map_of pd ''items'' = Some its"
  then have mem: "preset_name \<in> set (map fst (presets_of cfg))"
    by (metis map_of_eq_None_iff option.distinct(1) set_map)
  from a assms have "wf_preset (VDict pd)" by (auto dest: wf_preset_of)
  with a obtain items where its: "its = VList items" "list_all is_dict items"
    by (auto simp: wf_preset_def split: pyval.splits)
  obtain fd where fd: "Config_get cfg ''fonts'' (VDict []) = VDict fd"
      "list_all (\<lambda>kv. is_dict (snd kv)) fd"
    using wf_fonts [OF assms] by blast
  obtain ud where ud: "Config_get cfg ''_userdata'' (VDict []) = VDict ud"
      "list_all (\<lambda>kv. is_str (snd kv)) ud"
    using wf_userdata [OF assms] by blast
  obtain ds where ds: "drawtexts_of rp (VDict fd) (VDict ud) items = Inr ds"
    using drawtexts_of_ok [OF fd(2) ud(2) its(2)] by blast
  show "\<exists>chain. build_overlay_flags rp preset_name cfg = Inr [''-vf'', chain]"
    using a mem wf_presets [OF assms] wf_getitem [of cfg preset_name "VDict pd"] its(1) fd(1) ud(1) ds
    by (simp add: build_overlay_flags_def dict_of_def py_iter_def)
next
  fix p
  assume "map_of (presets_of cfg) preset_name = Some p"
  with assms have "wf_preset p" by (rule wf_preset_of)
  then show "is_dict p" by (auto simp: wf_preset_def is_dict_def split: pyval.splits)
qed

theorem build_overlay_flags_failures_witness:
  "wf_config two_presets_config
   \<and> build_overlay_flags (\<lambda>v. []) ''nope'' two_presets_config
       = Inl (BitcException (unknown_preset_msg ''nope''))
   \<and> build_overlay_flags (\<lambda>v. []) ''broken'' two_presets_config
       = Inl (BitcException (missing_items_msg ''broken''))
   \<and> (\<exists>chain. build_overlay_flags (\<lambda>v. []) ''default'' two_presets_config = Inr [''-vf'', chain])"
proof -
  have w: "wf_config two_presets_config"
    by (simp add: wf_config_def two_presets_config_def main_fonts_def wf_preset_def
        is_dict_def is_str_def)
  have p1: "map_of (presets_of two_presets_config) ''nope'' = None"
    by (simp add: presets_of_def two_presets_config_def)
  have p2: "map_of (presets_of two_presets_config) ''broken''
              = Some (VDict [(''comment'', VStr ''no items'')])
            \<and> map_of [(''comment'', VStr ''no items'')] ''items'' = None"
    by (simp add: presets_of_def two_presets_config_def)
  have p3: "map_of (presets_of two_presets_config) ''default''
              = Some (VDict [(''items'', VList [VDict [(''text'', VStr ''Hello, World''),
                                                  (''font'', VStr ''main'')]])])
            \<and> map_of [(''items'', VList [VDict [(''text'', VStr ''Hello, World''),
                                                  (''font'', VStr ''main'')]])] ''items''
              = Some (VList [VDict [(''text'', VStr ''Hello, World''), (''font'', VStr ''main'')]])"
    by (simp add: presets_of_def two_presets_config_def)
  from build_overlay_flags_failures [OF w, of "''nope''" "\<lambda>v. []"] p1
  have a: "build_overlay_flags (\<lambda>v. []) ''nope'' two_presets_config
       = Inl (BitcException (unknown_preset_msg ''nope''))" by blast
  from build_overlay_flags_failures [OF w, of "''broken''" "\<lambda>v. []"] p2
  have b: "build_overlay_flags (\<lambda>v. []) ''broken'' two_presets_config
       = Inl (BitcException (missing_items_msg ''broken''))" by blast
  from build_overlay_flags_failures [OF w, of "''default''" "\<lambda>v. []"] p3
  have c: "\<exists>chain. build_overlay_flags (\<lambda>v. []) ''default'' two_presets_config = Inr [''-vf'', chain]"
    by blast
  from w a b c show ?thesis by blast
qed

subsection \<open>Variable frame rate\<close>

lemma py_float_err: "py_float s = Inl e \<Longrightarrow> e = ValueError"
  by (auto simp: py_float_def Let_def split: prod.splits list.splits if_splits)

lemma py_int_err: "py_int s = Inl e \<Longrightarrow> e = ValueError"
  by (auto simp: py_int_def Let_def split: prod.splits if_splits)

lemma derive_fps_err: "derive_fps s = Inl e \<Longrightarrow> e = ValueError \<or> e = ZeroDivisionError"
  by (auto simp: derive_fps_def split: list.splits sum.splits if_splits dest: py_float_err py_int_err)

text \<open>
  C8. Deriving the user data from the metadata fails with the variable frame rate
  error if and only if the average frame rate of the video stream differs from its real
  frame rate.
\<close>

theorem variable_frame_rate_iff:
  "(build_userdata_from_metadata rp now_iso output_filename vs = Inl (BitcException vfr_msg))
     = (avg_frame_rate vs \<noteq> r_frame_rate vs)"
  by (auto simp: build_userdata_from_metadata_def Let_def split: sum.splits dest: derive_fps_err)

theorem variable_frame_rate_iff_witness:
  "build_userdata_from_metadata (\<lambda>v. ''25.0'') ''2020-01-01T00:00:00.000001'' ''out.mov'' vfr_stream
     = Inl (BitcException vfr_msg)
   \<and> build_userdata_from_metadata (\<lambda>v. ''25.0'') ''2020-01-01T00:00:00.000001'' ''out.mov'' cfr_stream
     \<noteq> Inl (BitcException vfr_msg)"
  using variable_frame_rate_iff [of "\<lambda>v. ''25.0''" "''2020-01-01T00:00:00.000001''" "''out.mov''" vfr_stream]
    variable_frame_rate_iff [of "\<lambda>v. ''25.0''" "''2020-01-01T00:00:00.000001''" "''out.mov''" cfr_stream]
  by (simp add: vfr_stream_def cfr_stream_def)

subsection \<open>Hydration from a list of entries\<close>

lemma split_on_nonempty: "split_on sep s \<noteq> []"
  by (induction s) (auto split: list.splits)

lemma split_on_notin: "sep \<notin> set s \<Longrightarrow> split_on sep s = [s]"
  by (induction s) auto

lemma length_split_on: "length (split_on sep s) = Suc (count_list s sep)"
  by (induction s) (auto simp: split_on_nonempty split: list.splits)

text \<open>An entry with exactly one separator splits into what is before it and what is after.\<close>

lemma split_on_one:
  "count_list e sep = 1 \<Longrightarrow>
     split_on sep e = [takeWhile (\<lambda>c. c \<noteq> sep) e, tl (dropWhile (\<lambda>c. c \<noteq> sep) e)]"
proof (induction e)
  case Nil
  then show ?case by simp
next
  case (Cons c cs)
  show ?case
  proof (cases "c = sep")
    case True
    with Cons.prems have "count_list cs sep = 0" by simp
    then have "sep \<notin> set cs" by (simp add: count_list_0_iff)
    with True show ?thesis by (simp add: split_on_notin)
  next
    case False
    with Cons.prems have "count_list cs sep = 1" by simp
    with Cons.IH False show ?thesis by simp
  qed
qed

lemma write_userdata_ok:
  "map_of (data cfg) ''_userdata'' = Some (VDict u) \<Longrightarrow>
     write_userdata cfg k v = Inr (set_userdata cfg (AList.update k v u))"
  by (simp add: write_userdata_def set_userdata_def)

lemma userdata_set_userdata:
  "map_of (data (set_userdata cfg u)) ''_userdata'' = Some (VDict u)"
  by (simp add: set_userdata_def update_conv')

lemma set_userdata_twice: "set_userdata (set_userdata cfg a) b = set_userdata cfg b"
  by (simp add: set_userdata_def)

lemma set_userdata_same:
  "map_of (data cfg) ''_userdata'' = Some (VDict u) \<Longrightarrow> set_userdata cfg u = cfg"
  by (simp add: set_userdata_def update_triv)

text \<open>The loop, run over well-formed entries, has written them all when it reaches the next one.\<close>

lemma hydrate_list_good:
  "map_of (data cfg) ''_userdata'' = Some (VDict u) \<Longrightarrow>
   \<forall>e\<in>set good. count_list e CHR ''='' = 1 \<Longrightarrow>
   hydrate_list cfg (good @ rest) = hydrate_list (set_userdata cfg (apply_entries u good)) rest"
proof (induction good arbitrary: cfg u)
  case Nil
  then show ?case by (simp add: apply_entries_def set_userdata_same)
next
  case (Cons e good)
  let ?u = "AList.update (entry_key e) (VStr (entry_value e)) u"
  from Cons.prems have one: "count_list e CHR ''='' = 1" by simp
  have parts: "split_on CHR ''='' e = [entry_key e, entry_value e]"
    using split_on_one [OF one] by (simp add: entry_key_def entry_value_def)
  have "hydrate_list cfg ((e # good) @ rest) = hydrate_list (set_userdata cfg ?u) (good @ rest)"
    using Cons.prems(1) parts by (simp add: write_userdata_ok)
  also have "\<dots> = hydrate_list (set_userdata (set_userdata cfg ?u) (apply_entries ?u good)) rest"
    using Cons.prems(2) by (intro Cons.IH) (simp_all add: userdata_set_userdata)
  also have "\<dots> = hydrate_list (set_userdata cfg (apply_entries u (e # good))) rest"
    by (simp add: set_userdata_twice apply_entries_def)
  finally show ?case .
qed

lemma keys_apply_entries:
  "fst ` set (apply_entries u es) = fst ` set u \<union> entry_key ` set es"
  by (induction es arbitrary: u) (auto simp: apply_entries_def dom_update)

text \<open>
  C9. When the list holds well-formed entries and then an entry that does not split on
  \<open>=\<close> into exactly two parts, hydration fails with the message for that entry, and the
  configuration it leaves is the one in which every earlier entry has been written into
  the user data: the key of each of them is in the namespace.
\<close>

theorem hydrate_userdata_not_atomic:
  assumes "map_of (data cfg) ''_userdata'' = Some (VDict u)"
    and "\<forall>e\<in>set good. count_list e CHR ''='' = 1"
    and "count_list bad CHR ''='' \<noteq> 1"
  shows "hydrate_userdata cfg (DataList (good @ bad # rest)) =
           (set_userdata cfg (apply_entries u good), Some (BitcException (bad_entry_msg bad)))
       \<and> userdata_of (set_userdata cfg (apply_entries u good)) = apply_entries u good
       \<and> (\<forall>e\<in>set good. entry_key e \<in> fst ` set (apply_entries u good))"
proof -
  have "hydrate_list cfg (good @ bad # rest) =
          hydrate_list (set_userdata cfg (apply_entries u good)) (bad # rest)"
    using assms(1,2) by (rule hydrate_list_good)
  also have "\<dots> = (set_userdata cfg (apply_entries u good), Some (BitcException (bad_entry_msg bad)))"
    using assms(3) by (simp add: length_split_on)
  finally have "hydrate_userdata cfg (DataList (good @ bad # rest)) =
           (set_userdata cfg (apply_entries u good), Some (BitcException (bad_entry_msg bad)))"
    by (simp add: hydrate_userdata_def)
  moreover have "userdata_of (set_userdata cfg (apply_entries u good)) = apply_entries u good"
    by (simp add: userdata_of_def userdata_set_userdata)
  moreover have "\<forall>e\<in>set good. entry_key e \<in> fst ` set (apply_entries u good)"
    by (simp add: keys_apply_entries)
  ultimately show ?thesis by simp
qed

theorem hydrate_userdata_not_atomic_witness:
  "map_of (data example_config) ''_userdata'' = Some (VDict [])
   \<and> count_list ''a=1'' CHR ''='' = 1
   \<and> count_list ''b=2'' CHR ''='' = 1
   \<and> count_list ''a=b=c'' CHR ''='' \<noteq> 1
   \<and> hydrate_userdata example_config (DataList [''a=1'', ''b=2'', ''a=b=c'', ''c=3'']) =
       (set_userdata example_config [(''a'', VStr ''1''), (''b'', VStr ''2'')],
        Some (BitcException (bad_entry_msg ''a=b=c'')))
   \<and> userdata_of (set_userdata example_config [(''a'', VStr ''1''), (''b'', VStr ''2'')])
        = [(''a'', VStr ''1''), (''b'', VStr ''2'')]
   \<and> userdata_of example_config = []"
proof -
  have h1: "map_of (data example_config) ''_userdata'' = Some (VDict [])"
    by (simp add: example_config_def)
  have h2: "\<forall>e\<in>set [''a=1'', ''b=2'']. count_list e CHR ''='' = 1" by simp
  have h3: "count_list ''a=b=c'' CHR ''='' \<noteq> 1" by simp
  have ap: "apply_entries [] [''a=1'', ''b=2''] = [(''a'', VStr ''1''), (''b'', VStr ''2'')]"
    by (simp add: apply_entries_def entry_key_def entry_value_def)
  have ud: "userdata_of example_config = []"
    by (simp add: userdata_of_def example_config_def)
  show ?thesis
    using hydrate_userdata_not_atomic [OF h1 h2 h3, of "[''c=3'']"] h1 h2 h3 ud by (simp add: ap)
qed

text \<open>
  C10. An entry with exactly one \<open>=\<close> is accepted: the loop writes the text before the
  \<open>=\<close> as key and the text after it as value, either of which may be empty, and goes on
  with the rest of the list.
\<close>

theorem hydrate_userdata_accepts_one_separator:
  assumes "map_of (data cfg) ''_userdata'' = Some (VDict u)"
    and "count_list item CHR ''='' = 1"
  shows "hydrate_userdata cfg (DataList (item # items)) =
           hydrate_userdata
             (set_userdata cfg (AList.update (entry_key item) (VStr (entry_value item)) u))
             (DataList items)
       \<and> map_of (AList.update (entry_key item) (VStr (entry_value item)) u) (entry_key item)
           = Some (VStr (entry_value item))"
proof -
  have parts: "split_on CHR ''='' item = [entry_key item, entry_value item]"
    using split_on_one [OF assms(2)] by (simp add: entry_key_def entry_value_def)
  show ?thesis
    using assms(1) parts by (simp add: hydrate_userdata_def write_userdata_ok update_conv')
qed

theorem hydrate_userdata_accepts_one_separator_witness:
  "map_of (data example_config) ''_userdata'' = Some (VDict [])
   \<and> count_list ''='' CHR ''='' = 1
   \<and> entry_key ''='' = [] \<and> entry_value ''='' = []
   \<and> hydrate_userdata example_config (DataList [''='', ''=VALUE'', ''KEY=''])
       = (set_userdata example_config [([], VStr ''VALUE''), (''KEY'', VStr [])], None)"
proof -
  have h1: "map_of (data example_config) ''_userdata'' = Some (VDict [])"
    by (simp add: example_config_def)
  have h2: "count_list ''='' CHR ''='' = 1" by simp
  have k: "entry_key ''='' = []" "entry_value ''='' = []"
    by (simp_all add: entry_key_def entry_value_def)
  have rest: "hydrate_userdata (set_userdata example_config [([], VStr [])])
                (DataList [''=VALUE'', ''KEY=''])
       = (set_userdata example_config [([], VStr ''VALUE''), (''KEY'', VStr [])], None)"
    by (simp add: hydrate_userdata_def write_userdata_def set_userdata_def example_config_def)
  show ?thesis
    using hydrate_userdata_accepts_one_separator [OF h1 h2, of "[''=VALUE'', ''KEY='']"] h1 h2 k rest
    by simp
qed

end
